theory Spec2Isabelle
  imports Main "HOL-Library.AList"
begin

section \<open>Values shared by the three modules\<close>

text \<open>
  A thrown JavaScript \<open>Error\<close> is a value carrying its message. Every function of the
  source that can throw returns \<open>error + 'a\<close> (\<open>Inl\<close> the thrown error); a function that
  also performs I/O returns the state it leaves behind next to the result, because an
  exception does not undo what was done before it was thrown.

  Strings are lists of 8-bit characters. The source's strings are sequences of UTF-16
  code units; only the ASCII range is represented here.
\<close>

datatype error = Error string

fun message :: "error \<Rightarrow> string" where
  "message (Error m) = m"

definition is_ws :: "char \<Rightarrow> bool" where
  \<comment> \<open>the ASCII members of the regular expression class \<open>\s\<close> and of \<open>String.prototype.trim\<close>\<close>
  "is_ws c = (c \<in> set [CHR '' '', CHR 0x09, CHR 0x0A, CHR 0x0B, CHR 0x0C, CHR 0x0D])"

definition is_letter :: "char \<Rightarrow> bool" where
  \<comment> \<open>the ASCII members of \<open>\p{L}\<close>, that is \<open>[a-zA-Z]\<close>\<close>
  "is_letter c = (c \<in> set ''abcdefghijklmnopqrstuvwxyzABCDEFGHIJKLMNOPQRSTUVWXYZ'')"

definition is_digit :: "char \<Rightarrow> bool" where
  "is_digit c = (c \<in> set ''0123456789'')"

definition js_trim :: "string \<Rightarrow> string" where
  "js_trim s = rev (dropWhile is_ws (rev (dropWhile is_ws s)))"

text \<open>The characters that cannot stand in a string literal: double quote, newline, single quote.\<close>

definition dq :: string where
  "dq = [CHR 0x22]"

definition nl :: string where
  "nl = [CHR 0x0A]"

definition sq :: string where
  "sq = [CHR 0x27]"

section \<open>Node's \<open>path\<close> module (POSIX flavour)\<close>

text \<open>
  \<open>path.join\<close>, \<open>path.dirname\<close> and \<open>path.relative\<close> belong to the runtime, not to the
  repository; they are written here after Node's \<open>lib/path.js\<close> so that the paths the
  file API computes can be evaluated.
\<close>

fun split_on :: "char \<Rightarrow> string \<Rightarrow> string list" where
  "split_on c [] = [[]]"
| "split_on c (x # xs) =
     (if x = c then [] # split_on c xs
      else (case split_on c xs of [] \<Rightarrow> [[x]] | s # ss \<Rightarrow> (x # s) # ss))"

fun join_slash :: "string list \<Rightarrow> string" where
  "join_slash [] = []"
| "join_slash [s] = s"
| "join_slash (s # t # ss) = s @ ''/'' @ join_slash (t # ss)"

fun normalizeString :: "bool \<Rightarrow> string list \<Rightarrow> string list \<Rightarrow> string list" where
  "normalizeString allowAboveRoot res [] = res"
| "normalizeString allowAboveRoot res (seg # segs) =
     (if seg = [] \<or> seg = ''.'' then normalizeString allowAboveRoot res segs
      else if seg = ''..'' then
        (if res \<noteq> [] \<and> last res \<noteq> ''..''
           then normalizeString allowAboveRoot (butlast res) segs
         else if allowAboveRoot
           then normalizeString allowAboveRoot (res @ [''..'']) segs
         else normalizeString allowAboveRoot res segs)
      else normalizeString allowAboveRoot (res @ [seg]) segs)"

definition path_normalize :: "string \<Rightarrow> string" where
  "path_normalize p =
     (if p = [] then ''.''
      else
        let isAbsolute = (hd p = CHR ''/'');
            trailingSeparator = (last p = CHR ''/'');
            q = join_slash (normalizeString (\<not> isAbsolute) [] (split_on CHR ''/'' p))
        in if q = [] then (if isAbsolute then ''/'' else if trailingSeparator then ''./'' else ''.'')
           else (let r = (if trailingSeparator then q @ ''/'' else q)
                 in if isAbsolute then ''/'' @ r else r))"

definition path_join :: "string list \<Rightarrow> string" where
  "path_join args =
     (let joined = join_slash (filter (\<lambda>a. a \<noteq> []) args)
      in if joined = [] then ''.'' else path_normalize joined)"

definition path_dirname :: "string \<Rightarrow> string" where
  "path_dirname p =
     (if p = [] then ''.''
      else
        let hasRoot = (hd p = CHR ''/'');
            t1 = rev (dropWhile (\<lambda>c. c = CHR ''/'') (rev (tl p)));
            t2 = rev (dropWhile (\<lambda>c. c \<noteq> CHR ''/'') (rev t1))
        in if t2 = [] then (if hasRoot then ''/'' else ''.'')
           else if hasRoot \<and> length t2 = 1 then ''//''
           else take (length t2) p)"

fun strip_common :: "string list \<Rightarrow> string list \<Rightarrow> string list \<times> string list" where
  "strip_common (a # as) (b # bs) = (if a = b then strip_common as bs else (a # as, b # bs))"
| "strip_common as bs = (as, bs)"

definition path_relative :: "string \<Rightarrow> string \<Rightarrow> string" where
  \<comment> \<open>for absolute paths, which \<open>path.resolve\<close> only normalises\<close>
  "path_relative src dst =
     (let (f, t) = strip_common (normalizeString False [] (split_on CHR ''/'' src))
                                (normalizeString False [] (split_on CHR ''/'' dst))
      in join_slash (replicate (length f) ''..'' @ t))"

definition is_descendant :: "string \<Rightarrow> string \<Rightarrow> bool" where
  \<comment> \<open>\<open>p\<close> lies strictly below the directory \<open>root\<close>\<close>
  "is_descendant root p =
     (take (Suc (length root)) p = root @ ''/'' \<and> Suc (length root) < length p)"

definition strip_slash :: "string \<Rightarrow> string" where
  \<comment> \<open>a directory's path without trailing separators (\<open>/a/b/\<close> and \<open>/a/b\<close> name one directory)\<close>
  "strip_slash d =
     (let t = rev (dropWhile (\<lambda>c. c = CHR ''/'') (rev d))
      in if t = [] \<and> d \<noteq> [] then ''/'' else t)"

section \<open>The file API: path resolution\<close>

definition DEFAULT_DIR :: string where
  "DEFAULT_DIR = ''public''"

definition BRANCHES_DIR :: string where
  "BRANCHES_DIR = ''branches''"

definition REGEXP_CHECK_PATH :: "string \<Rightarrow> bool" where
  \<comment> \<open>\<open>/^[\p{L}\d\s\-_/.+]+$/u\<close>\<close>
  "REGEXP_CHECK_PATH s =
     (s \<noteq> [] \<and> list_all (\<lambda>c. is_letter c \<or> is_digit c \<or> is_ws c \<or> c \<in> set ''-_/.+'') s)"

fun has_dotdot :: "string \<Rightarrow> bool" where
  \<comment> \<open>\<open>dir.match(/\.\./)\<close>: two consecutive dots anywhere\<close>
  "has_dotdot (a # b # cs) = ((a = CHR ''.'' \<and> b = CHR ''.'') \<or> has_dotdot (b # cs))"
| "has_dotdot cs = False"

definition getSecurePath :: "string \<Rightarrow> string \<Rightarrow> string \<Rightarrow> error + string" where
  \<comment> \<open>the first argument is \<open>process.env.DATA_DIR\<close>\<close>
  "getSecurePath DATA_DIR dir appName =
     (if has_dotdot dir then Inl (Error ''Forbidden path'')
      else
        let basePath = path_join [DATA_DIR, ''apps'', appName]
        in if dir = DEFAULT_DIR \<or> dir = [] then Inr (path_join [basePath, dir])
           else Inr (path_join [basePath, BRANCHES_DIR, dir]))"

section \<open>Effects: exceptions over a state that is never rolled back\<close>

text \<open>
  An \<open>async\<close> function of the source is a function from the state before to a result and
  the state after. \<open>bind_io\<close> is sequencing with \<open>await\<close>, \<open>catch_io\<close> is
  \<open>try { ... } catch (error) { ... }\<close>: the handler runs in the state the failed block
  left behind.
\<close>

definition return_io :: "'a \<Rightarrow> 's \<Rightarrow> (error + 'a) \<times> 's" where
  "return_io a s = (Inr a, s)"

definition throw_io :: "error \<Rightarrow> 's \<Rightarrow> (error + 'a) \<times> 's" where
  "throw_io e s = (Inl e, s)"

definition bind_io ::
  "('s \<Rightarrow> (error + 'a) \<times> 's) \<Rightarrow> ('a \<Rightarrow> 's \<Rightarrow> (error + 'b) \<times> 's) \<Rightarrow> 's \<Rightarrow> (error + 'b) \<times> 's" where
  "bind_io m f s = (case m s of (Inl e, s') \<Rightarrow> (Inl e, s') | (Inr a, s') \<Rightarrow> f a s')"

definition catch_io ::
  "('s \<Rightarrow> (error + 'a) \<times> 's) \<Rightarrow> (error \<Rightarrow> 's \<Rightarrow> (error + 'a) \<times> 's) \<Rightarrow> 's \<Rightarrow> (error + 'a) \<times> 's" where
  "catch_io m h s = (case m s of (Inl e, s') \<Rightarrow> h e s' | (Inr a, s') \<Rightarrow> (Inr a, s'))"

section \<open>The world of the file API: a file system and its git repositories\<close>

text \<open>
  The file system holds regular files (absolute path to content) and directories, both
  under their normalised path without a separator at the end. A git repository belongs
  to a directory, the root of its work tree; its history is the list of its commits,
  newest first, so the parent of a commit is the next one in the list and the last one
  is the root commit. A commit is named by a number (standing for its hash), holds its
  message (as git stores it, without the line feed that ends it) and the tree it records
  (path relative to the root to content). The index of a repository has the same form.
  \<open>trace\<close> records every call to the file system, to git and to the access check, in
  the order the calls are made.
\<close>

record commit =
  c_hash :: nat
  c_message :: string
  c_tree :: "(string \<times> string) list"

record repo =
  r_index :: "(string \<times> string) list"
  r_commits :: "commit list"

datatype io =
    Stat string
  | Mkdir string
  | ReadFile string
  | WriteFile string
  | Unlink string
  | CheckIsRepo string
  | GitInit string
  | GitAdd string
  | GitStatus string
  | GitCommit string string
  | GitRaw string "string list"
  | AccessCheck string

record world =
  files :: "(string \<times> string) list"
  dirs :: "string list"
  repos :: "(string \<times> repo) list"
  trace :: "io list"

record stats =
  isDirectory :: bool
  size :: nat

definition emit :: "io \<Rightarrow> world \<Rightarrow> world" where
  "emit e w = w\<lparr>trace := trace w @ [e]\<rparr>"

subsection \<open>\<open>fs/promises\<close> and \<open>fs-extra\<close>\<close>

definition fs_stat :: "string \<Rightarrow> world \<Rightarrow> (error + stats) \<times> world" where
  "fs_stat p w =
     (case map_of (files w) p of
        Some c \<Rightarrow> (Inr \<lparr>isDirectory = False, size = length c\<rparr>, emit (Stat p) w)
      | None \<Rightarrow>
          if strip_slash p \<in> set (dirs w) then (Inr \<lparr>isDirectory = True, size = 0\<rparr>, emit (Stat p) w)
          else (Inl (Error (''ENOENT: no such file or directory, stat '' @ p)), emit (Stat p) w))"

definition path_ancestors :: "string \<Rightarrow> string list" where
  \<comment> \<open>the directories \<open>mkdir -p\<close> has to make: every prefix of the path, the path included\<close>
  "path_ancestors p =
     (let segs = filter (\<lambda>s. s \<noteq> []) (split_on CHR ''/'' p);
          root = (if p \<noteq> [] \<and> hd p = CHR ''/'' then ''/'' else [])
      in map (\<lambda>k. root @ join_slash (take k segs)) [1..<Suc (length segs)])"

definition fs_mkdirs :: "string \<Rightarrow> world \<Rightarrow> (error + unit) \<times> world" where
  \<comment> \<open>\<open>fs.mkdir(p, {recursive: true})\<close> and fs-extra's \<open>mkdirs\<close>\<close>
  "fs_mkdirs p w =
     (if list_ex (\<lambda>d. map_of (files w) d \<noteq> None) (path_ancestors p)
      then (Inl (Error (''EEXIST: file already exists, mkdir '' @ p)), emit (Mkdir p) w)
      else (Inr (), (emit (Mkdir p) w)\<lparr>dirs := remdups (dirs w @ path_ancestors p)\<rparr>))"

definition fs_readFile :: "string \<Rightarrow> world \<Rightarrow> (error + string) \<times> world" where
  "fs_readFile p w =
     (case map_of (files w) p of
        Some c \<Rightarrow> (Inr c, emit (ReadFile p) w)
      | None \<Rightarrow> (Inl (Error (''ENOENT: no such file or directory, open '' @ p)), emit (ReadFile p) w))"

definition fs_writeFile :: "string \<Rightarrow> string \<Rightarrow> world \<Rightarrow> (error + unit) \<times> world" where
  \<comment> \<open>a path that ends with a separator names a directory and cannot be opened for writing\<close>
  "fs_writeFile p c w =
     (if strip_slash p \<in> set (dirs w)
      then (Inl (Error (''EISDIR: illegal operation on a directory, open '' @ p)), emit (WriteFile p) w)
      else if strip_slash p \<noteq> p \<and> map_of (files w) (strip_slash p) \<noteq> None
      then (Inl (Error (''ENOTDIR: not a directory, open '' @ p)), emit (WriteFile p) w)
      else if path_dirname p \<notin> set (dirs w)
      then (Inl (Error (''ENOENT: no such file or directory, open '' @ p)), emit (WriteFile p) w)
      else if strip_slash p \<noteq> p
      then (Inl (Error (''EISDIR: illegal operation on a directory, open '' @ p)), emit (WriteFile p) w)
      else (Inr (), (emit (WriteFile p) w)\<lparr>files := AList.update p c (files w)\<rparr>))"

definition fs_unlink :: "string \<Rightarrow> world \<Rightarrow> (error + unit) \<times> world" where
  "fs_unlink p w =
     (case map_of (files w) p of
        Some c \<Rightarrow> (Inr (), (emit (Unlink p) w)\<lparr>files := AList.delete p (files w)\<rparr>)
      | None \<Rightarrow> (Inl (Error (''ENOENT: no such file or directory, unlink '' @ p)), emit (Unlink p) w))"

subsection \<open>\<open>simple-git\<close>\<close>

text \<open>
  What the git commands used by the source do, after git's manual. A command run in
  directory \<open>d\<close> works on the repository whose work tree \<open>d\<close> lies in: the one in \<open>d\<close>
  itself, else the nearest one above it. Of the working tree git sees the files below the
  root except those with a path component \<open>.git\<close>, those below the root of another
  repository inside the tree, and the untracked files its exclude rules ignore.

  Two sets of rules are git's own and depend on its version and configuration; they are
  parameters (\<open>git_rules\<close>). \<open>excluded\<close> stands for the exclude rules (the \<open>.gitignore\<close>
  files, \<open>info/exclude\<close>, the user's configuration): given the files on disk and the path
  of a file it says whether the rules match. \<open>refused\<close> stands for git's check of the
  names it is asked to add (a path, relative to the root, that some file system would
  take for \<open>.git\<close>): \<open>add\<close> fails, leaving the index as it was, when a file it has to
  add or update has such a name.

  \<open>add .\<close> run in \<open>d\<close> replaces the index entries below \<open>d\<close> by what git sees there;
  \<open>status\<close> lists the paths that differ between the last commit and the index or between
  the index and what git sees of the whole tree. \<open>commit -m\<close> cleans the message up
  (trailing white space, empty lines at either end, runs of empty lines) and records the
  index as a new commit. When the index equals the last commit's tree it prints "nothing
  to commit" on its standard output and exits with 1: simple-git takes an exit code for
  an error only together with output on standard error, so the call resolves. When the
  cleaned message is empty git aborts with a message on standard error, and the call
  rejects.

  Not represented: the link entry git keeps for a repository nested in the tree, file
  modes, a git that cannot commit for want of an author identity, and the files git keeps
  below \<open>.git\<close>: a repository is held in \<open>repos\<close>, and a file written below \<open>.git\<close>
  does not change it.
\<close>

record git_rules =
  excluded :: "(string \<times> string) list \<Rightarrow> string \<Rightarrow> bool"
  refused :: "string \<Rightarrow> bool"

fun deepest :: "string list \<Rightarrow> string option" where
  "deepest [] = None"
| "deepest (r # rs) =
     (case deepest rs of
        None \<Rightarrow> Some r
      | Some b \<Rightarrow> if length b < length r then Some r else Some b)"

definition toplevel :: "string \<Rightarrow> world \<Rightarrow> string option" where
  \<comment> \<open>the root of the work tree that directory \<open>d\<close> lies in\<close>
  "toplevel d w =
     (if strip_slash d \<in> set (map fst (repos w)) then Some (strip_slash d)
      else deepest (filter (\<lambda>r. is_descendant r (strip_slash d)) (map fst (repos w))))"

definition repo_of :: "string \<Rightarrow> world \<Rightarrow> (string \<times> repo) option" where
  "repo_of d w =
     (case toplevel d w of
        None \<Rightarrow> None
      | Some r \<Rightarrow> (case map_of (repos w) r of None \<Rightarrow> None | Some rp \<Rightarrow> Some (r, rp)))"


definition in_git_dir :: "string \<Rightarrow> bool" where
  "in_git_dir rel = (''.git'' \<in> set (split_on CHR ''/'' rel))"



definition visible ::
  "((string \<times> string) list \<Rightarrow> string \<Rightarrow> bool) \<Rightarrow> string \<Rightarrow> string \<Rightarrow> string list
   \<Rightarrow> (string \<times> string) list \<Rightarrow> (string \<times> string) list \<Rightarrow> (string \<times> string) list" where
  \<comment> \<open>what git, in the work tree with root \<open>r\<close>, sees of the files below \<open>sub\<close>, by their
      path relative to \<open>r\<close>; \<open>nested\<close> are the roots of the repositories inside the tree,
      \<open>idx\<close> is the index (a file in it is tracked)\<close>
  "visible ign r sub nested idx fs =
     map (\<lambda>(p, c). (drop (Suc (length r)) p, c))
       (filter (\<lambda>(p, c). is_descendant r p \<and> is_descendant sub p
                         \<and> \<not> in_git_dir (drop (Suc (length r)) p)
                         \<and> \<not> list_ex (\<lambda>n. is_descendant n p) nested
                         \<and> (drop (Suc (length r)) p \<in> set (map fst idx) \<or> \<not> ign fs p))
               fs)"

definition is_git_space :: "char \<Rightarrow> bool" where
  \<comment> \<open>git's \<open>isspace\<close>: space, tab, line feed, carriage return\<close>
  "is_git_space c = (c \<in> set [CHR '' '', CHR 0x09, CHR 0x0A, CHR 0x0D])"

fun stripspace_lines :: "bool \<Rightarrow> bool \<Rightarrow> string list \<Rightarrow> string list" where
  \<comment> \<open>\<open>started\<close>: a line has been kept; \<open>empties\<close>: empty lines were met since\<close>
  "stripspace_lines started empties [] = []"
| "stripspace_lines started empties (l # ls) =
     (if l = [] then stripspace_lines started True ls
      else (if empties \<and> started then [[], l] else [l]) @ stripspace_lines True False ls)"

definition git_stripspace :: "string \<Rightarrow> string list" where
  \<comment> \<open>\<open>strbuf_stripspace\<close>: the lines of the cleaned message\<close>
  "git_stripspace msg =
     stripspace_lines False False
       (map (\<lambda>l. rev (dropWhile is_git_space (rev l))) (split_on (CHR 0x0A) msg))"

fun join_lines :: "string list \<Rightarrow> string" where
  "join_lines [] = []"
| "join_lines [s] = s"
| "join_lines (s # t # ss) = s @ [CHR 0x0A] @ join_lines (t # ss)"

definition message_is_empty :: "string \<Rightarrow> bool" where
  \<comment> \<open>git's \<open>message_is_empty\<close>: nothing is left but \<open>Signed-off-by\<close> lines\<close>
  "message_is_empty msg =
     list_all (\<lambda>l. l = [] \<or> take 15 l = ''Signed-off-by: '') (git_stripspace msg)"

definition changed :: "(string \<times> string) list \<Rightarrow> (string \<times> string) list \<Rightarrow> string list" where
  "changed t1 t2 = filter (\<lambda>p. map_of t1 p \<noteq> map_of t2 p) (remdups (map fst t1 @ map fst t2))"

definition head_tree :: "commit list \<Rightarrow> (string \<times> string) list" where
  \<comment> \<open>the tree of the last commit; empty before the first commit\<close>
  "head_tree cs = (case cs of [] \<Rightarrow> [] | c # rest \<Rightarrow> c_tree c)"

definition not_a_repo :: "string \<Rightarrow> error" where
  "not_a_repo d = Error (''fatal: not a git repository: '' @ d)"

definition git_checkIsRepo :: "string \<Rightarrow> world \<Rightarrow> (error + bool) \<times> world" where
  \<comment> \<open>\<open>git rev-parse --is-inside-work-tree\<close>\<close>
  "git_checkIsRepo d w = (Inr (toplevel d w \<noteq> None), emit (CheckIsRepo d) w)"

definition git_init :: "string \<Rightarrow> world \<Rightarrow> (error + unit) \<times> world" where
  "git_init d w =
     (case map_of (repos w) (strip_slash d) of
        Some r \<Rightarrow> (Inr (), emit (GitInit d) w)
      | None \<Rightarrow>
          (Inr (), (emit (GitInit d) w)
             \<lparr>repos := AList.update (strip_slash d) \<lparr>r_index = [], r_commits = []\<rparr> (repos w)\<rparr>))"

definition git_add :: "git_rules \<Rightarrow> string \<Rightarrow> world \<Rightarrow> (error + unit) \<times> world" where
  \<comment> \<open>\<open>git.add('.')\<close>\<close>
  "git_add rules d w =
     (case repo_of d w of
        None \<Rightarrow> (Inl (not_a_repo d), emit (GitAdd d) w)
      | Some (r, rp) \<Rightarrow>
          let kept = (if strip_slash d = r then []
                      else filter (\<lambda>(k, c). \<not> is_descendant (strip_slash d) (r @ ''/'' @ k)) (r_index rp));
              seen = visible (excluded rules) r (strip_slash d)
                       (filter (is_descendant r) (map fst (repos w))) (r_index rp) (files w)
          in if list_ex (\<lambda>(k, c). refused rules k \<and> map_of (r_index rp) k \<noteq> Some c) seen
             then (Inl (Error ''fatal: adding files failed''), emit (GitAdd d) w)
             else (Inr (), (emit (GitAdd d) w)
                     \<lparr>repos := AList.update r (rp\<lparr>r_index := kept @ seen\<rparr>) (repos w)\<rparr>))"

definition git_status :: "git_rules \<Rightarrow> string \<Rightarrow> world \<Rightarrow> (error + string list) \<times> world" where
  \<comment> \<open>the result is \<open>status.files\<close>\<close>
  "git_status rules d w =
     (case repo_of d w of
        None \<Rightarrow> (Inl (not_a_repo d), emit (GitStatus d) w)
      | Some (r, rp) \<Rightarrow>
          (Inr (remdups (changed (head_tree (r_commits rp)) (r_index rp)
                         @ changed (r_index rp)
                             (visible (excluded rules) r r
                                (filter (is_descendant r) (map fst (repos w)))
                                (r_index rp) (files w)))),
           emit (GitStatus d) w))"

definition git_commit :: "string \<Rightarrow> string \<Rightarrow> world \<Rightarrow> (error + unit) \<times> world" where
  "git_commit d msg w =
     (case repo_of d w of
        None \<Rightarrow> (Inl (not_a_repo d), emit (GitCommit d msg) w)
      | Some (r, rp) \<Rightarrow>
          if changed (head_tree (r_commits rp)) (r_index rp) = [] then (Inr (), emit (GitCommit d msg) w)
          else if message_is_empty msg
          then (Inl (Error ''Aborting commit due to empty commit message.''), emit (GitCommit d msg) w)
          else
            (Inr (), (emit (GitCommit d msg) w)
               \<lparr>repos := AList.update r
                  (rp\<lparr>r_commits :=
                        \<lparr>c_hash = length (r_commits rp), c_message = join_lines (git_stripspace msg),
                         c_tree = r_index rp\<rparr>
                        # r_commits rp\<rparr>)
                  (repos w)\<rparr>))"

fun find_commit :: "nat \<Rightarrow> commit list \<Rightarrow> commit option" where
  "find_commit h [] = None"
| "find_commit h (c # cs) = (if c_hash c = h then Some c else find_commit h cs)"

fun parent_of :: "nat \<Rightarrow> commit list \<Rightarrow> commit option" where
  "parent_of h [] = None"
| "parent_of h [c] = None"
| "parent_of h (c # p # cs) = (if c_hash c = h then Some p else parent_of h (p # cs))"

definition git_rev_parse_parent :: "string \<Rightarrow> nat \<Rightarrow> world \<Rightarrow> (error + nat) \<times> world" where
  \<comment> \<open>\<open>git.raw(['rev-parse', `${commitHash}^`])\<close>: the name of the first parent\<close>
  "git_rev_parse_parent d h w =
     (case repo_of d w of
        None \<Rightarrow> (Inl (not_a_repo d), emit (GitRaw d [''rev-parse'']) w)
      | Some (root, r) \<Rightarrow>
          (case parent_of h (r_commits r) of
             None \<Rightarrow>
               (Inl (Error ''fatal: ambiguous argument: unknown revision or path not in the working tree.''),
                emit (GitRaw d [''rev-parse'']) w)
           | Some p \<Rightarrow> (Inr (c_hash p), emit (GitRaw d [''rev-parse'']) w)))"

definition git_show :: "string \<Rightarrow> nat \<Rightarrow> string \<Rightarrow> world \<Rightarrow> (error + string) \<times> world" where
  \<comment> \<open>\<open>git.show([`${rev}:${filePath}`])\<close>: the file's content in that commit\<close>
  "git_show d h filePath w =
     (case repo_of d w of
        None \<Rightarrow> (Inl (not_a_repo d), emit (GitRaw d [''show'', filePath]) w)
      | Some (root, r) \<Rightarrow>
          (case find_commit h (r_commits r) of
             None \<Rightarrow> (Inl (Error ''fatal: invalid object name''), emit (GitRaw d [''show'', filePath]) w)
           | Some c \<Rightarrow>
               (case map_of (c_tree c) filePath of
                  None \<Rightarrow>
                    (Inl (Error (''fatal: path does not exist in the commit: '' @ filePath)),
                     emit (GitRaw d [''show'', filePath]) w)
                | Some content \<Rightarrow> (Inr content, emit (GitRaw d [''show'', filePath]) w))))"

definition git_worktree_add :: "string \<Rightarrow> string list \<Rightarrow> world \<Rightarrow> (error + unit) \<times> world" where
  \<comment> \<open>\<open>git.raw(['worktree', 'add', '-b', branch, path, ...])\<close> run in \<open>d\<close>: git refuses a
      path that exists unless it is an empty directory; otherwise the path becomes a
      directory holding the files of the last commit, with a repository of its own that
      continues the history. Branch names and the start point are not represented.\<close>
  "git_worktree_add d args w =
     (case repo_of d w of
        None \<Rightarrow> (Inl (not_a_repo d), emit (GitRaw d args) w)
      | Some (root, r) \<Rightarrow>
          if length args < 5 then (Inl (Error ''usage: git worktree add''), emit (GitRaw d args) w)
          else
            let target = path_join [d, args ! 4]
            in if list_ex (is_descendant target) (map fst (files w) @ dirs w)
                    \<or> map_of (files w) target \<noteq> None
               then (Inl (Error (''fatal: '' @ target @ '' already exists'')), emit (GitRaw d args) w)
               else
                 (Inr (), (emit (GitRaw d args) w)
                    \<lparr>files := files w @ map (\<lambda>(p, c). (target @ ''/'' @ p, c)) (head_tree (r_commits r)),
                      dirs := remdups (dirs w @ path_ancestors target),
                      repos := AList.update target \<lparr>r_index = head_tree (r_commits r), r_commits = r_commits r\<rparr> (repos w)\<rparr>))"

section \<open>\<open>git.mjs\<close>\<close>

definition simpleGit :: "string \<Rightarrow> world \<Rightarrow> (error + unit) \<times> world" where
  \<comment> \<open>\<open>simpleGit(baseDir)\<close>: the constructor throws unless \<open>baseDir\<close> is an existing
      directory. It is written out in \<open>initGitIfNotExists\<close> and \<open>commitAllChanges\<close>; in the
      other functions it follows a successful \<open>initGitIfNotExists\<close>, or comes before a git
      command that fails as well where there is no directory.\<close>
  "simpleGit baseDir w =
     (if strip_slash baseDir \<in> set (dirs w) then (Inr (), w)
      else (Inl (Error ''Cannot use simple-git on a directory that does not exist''), w))"

definition initGitIfNotExists :: "string \<Rightarrow> world \<Rightarrow> (error + unit) \<times> world" where
  "initGitIfNotExists directoryPath =
     bind_io (catch_io (bind_io (fs_stat directoryPath) (\<lambda>st. return_io ()))
                       (\<lambda>error. fs_mkdirs directoryPath))
       (\<lambda>u. bind_io (simpleGit directoryPath)
       (\<lambda>git. bind_io (git_checkIsRepo directoryPath)
          (\<lambda>isRepo. if \<not> isRepo then git_init directoryPath else return_io ())))"

definition commitAllChanges ::
  "git_rules \<Rightarrow> string \<Rightarrow> string \<Rightarrow> world \<Rightarrow> (error + unit) \<times> world" where
  \<comment> \<open>the first argument is the rules of the git installation, which the source leaves to git\<close>
  "commitAllChanges rules repoPath commitMessage =
     bind_io (initGitIfNotExists repoPath)
       (\<lambda>u. bind_io (simpleGit repoPath)
       (\<lambda>git. bind_io (git_add rules repoPath)
          (\<lambda>u. bind_io (git_status rules repoPath)
             (\<lambda>status_files.
                if length status_files > 0 then git_commit repoPath commitMessage
                else return_io ()))))"

definition commits_of :: "string \<Rightarrow> world \<Rightarrow> commit list" where
  \<comment> \<open>the history git shows in directory \<open>d\<close>; its length is the commit count\<close>
  "commits_of d w = (case repo_of d w of None \<Rightarrow> [] | Some (r, rp) \<Rightarrow> r_commits rp)"

definition index_of :: "string \<Rightarrow> world \<Rightarrow> (string \<times> string) list" where
  \<comment> \<open>the index of the repository that directory \<open>d\<close> lies in; empty where there is none\<close>
  "index_of d w = (case repo_of d w of None \<Rightarrow> [] | Some (r, rp) \<Rightarrow> r_index rp)"

record content_diff =
  before :: string
  after :: string
  wasDeleted :: bool
  wasCreated :: bool

definition getFileContentDiff ::
  "string \<Rightarrow> nat \<Rightarrow> string \<Rightarrow> world \<Rightarrow> (error + content_diff) \<times> world" where
  "getFileContentDiff repoPath commitHash filePath =
     bind_io (git_rev_parse_parent repoPath commitHash)
       (\<lambda>parentHash.
          bind_io (catch_io (git_show repoPath parentHash filePath) (\<lambda>error. return_io []))
            (\<lambda>beforeContent.
               bind_io (catch_io (git_show repoPath commitHash filePath) (\<lambda>error. return_io []))
                 (\<lambda>afterContent.
                    return_io \<lparr>before = beforeContent, after = afterContent,
                               wasDeleted = (afterContent = []),
                               wasCreated = (beforeContent = [])\<rparr>)))"

definition valid_branch_name :: "string \<Rightarrow> bool" where
  \<comment> \<open>\<open>newBranchName.match(/^[a-zA-Z0-9-]+$/)\<close>\<close>
  "valid_branch_name s =
     (s \<noteq> [] \<and> list_all (\<lambda>c. is_letter c \<or> is_digit c \<or> c = CHR ''-'') s)"

definition createBranchWithWorktree ::
  "string \<Rightarrow> string \<Rightarrow> string \<Rightarrow> string option \<Rightarrow> world \<Rightarrow> (error + unit) \<times> world" where
  "createBranchWithWorktree repoPath newBranchName branchesPath sourceBranch =
     catch_io
       (bind_io (initGitIfNotExists repoPath)
          (\<lambda>u. if \<not> valid_branch_name newBranchName then throw_io (Error ''Invalid branch name'')
                else
                  let targetPath = path_join [branchesPath, newBranchName]
                  in bind_io
                       (catch_io
                          (bind_io (fs_stat targetPath)
                             (\<lambda>st. throw_io (Error (''Directory already exists: '' @ targetPath))))
                          (\<lambda>error. return_io ()))
                       (\<lambda>u. let relativeTargetPath = path_relative repoPath targetPath;
                                 args = [''worktree'', ''add'', ''-b'', newBranchName, relativeTargetPath]
                                        @ (case sourceBranch of
                                             None \<Rightarrow> []
                                           | Some b \<Rightarrow> if b \<noteq> [] \<and> b \<noteq> ''public'' then [b] else [])
                             in git_worktree_add repoPath args)))
       (\<lambda>error. throw_io (Error (''Failed to create branch: '' @ message error)))"

section \<open>The file API: routes\<close>

text \<open>
  A request carries what the routes read from it; \<open>None\<close> is JavaScript's \<open>undefined\<close>.
  The environment holds what \<open>initFileApi\<close> is given: the data directory, the access
  check \<open>graphql.checkAppAccessMiddleware\<close> (which answers the request itself when it
  returns false) and, per application, the list found under
  \<open>pluginsData["code-editor"].pluginSlots.changesListeners\<close>. A listener either returns
  (\<open>None\<close>; what it returns is not looked at, a promise included) or throws. The
  environment also holds the rules of the git installation (\<open>gitRules\<close>).
\<close>

record request =
  params_appName :: string
  query_dir :: "string option"
  query_path :: "string option"
  body_path :: "string option"
  body_commitMessage :: "string option"
  file_buffer :: "string option"

record change_event =
  ev_appName :: string
  ev_filePath :: string
  ev_changeType :: string
  ev_basePath :: string
  ev_relativePath :: "string option"
  ev_previousContent :: "string option"
  ev_newContent :: "string option"

record env =
  DATA_DIR :: string
  checkAppAccessMiddleware :: "request \<Rightarrow> bool"
  changesListeners :: "string \<Rightarrow> (change_event \<Rightarrow> error option) list"
  gitRules :: git_rules

datatype response =
    Denied
  | Status nat string
  | Content string
  | Saved nat
  | Success

definition lift_io :: "error + 'a \<Rightarrow> 's \<Rightarrow> (error + 'a) \<times> 's" where
  "lift_io r s = (r, s)"

definition respond_io ::
  "('s \<Rightarrow> (error + response) \<times> 's) \<Rightarrow> (error \<Rightarrow> response) \<Rightarrow> 's \<Rightarrow> response \<times> 's" where
  \<comment> \<open>a route's outer \<open>try { ... } catch (err) { res.status(...) ... }\<close>\<close>
  "respond_io m h s = (case m s of (Inl e, s') \<Rightarrow> (h e, s') | (Inr r, s') \<Rightarrow> (r, s'))"

definition checkAccess :: "env \<Rightarrow> request \<Rightarrow> world \<Rightarrow> (error + bool) \<times> world" where
  "checkAccess env req w =
     (Inr (checkAppAccessMiddleware env req), emit (AccessCheck (params_appName req)) w)"

fun call_listeners :: "(change_event \<Rightarrow> error option) list \<Rightarrow> change_event \<Rightarrow> error option" where
  \<comment> \<open>the \<open>for\<close> loop of \<open>onFileChange\<close>: a listener that throws ends it\<close>
  "call_listeners [] ev = None"
| "call_listeners (listener # rest) ev =
     (case listener ev of Some e \<Rightarrow> Some e | None \<Rightarrow> call_listeners rest ev)"

definition onFileChange :: "env \<Rightarrow> change_event \<Rightarrow> world \<Rightarrow> (error + unit) \<times> world" where
  "onFileChange env ev w =
     (case call_listeners (changesListeners env (ev_appName ev)) ev of
        Some e \<Rightarrow> (Inl e, w)
      | None \<Rightarrow> (Inr (), w))"

definition request_dir :: "request \<Rightarrow> string" where
  \<comment> \<open>\<open>req.query.dir ?? DEFAULT_DIR\<close>\<close>
  "request_dir req = (case query_dir req of None \<Rightarrow> DEFAULT_DIR | Some d \<Rightarrow> d)"

definition route_files_content :: "env \<Rightarrow> request \<Rightarrow> world \<Rightarrow> response \<times> world" where
  \<comment> \<open>\<open>router.get('/files/:appName/content')\<close>\<close>
  "route_files_content env req w =
     (case query_path req of
        None \<Rightarrow> (Status 400 ''Missing path'', w)
      | Some p \<Rightarrow>
          if p = [] then (Status 400 ''Missing path'', w)
          else if \<not> REGEXP_CHECK_PATH p then (Status 500 (''Forbidden path '' @ p), w)
          else
            respond_io
              (bind_io (lift_io (getSecurePath (DATA_DIR env) (request_dir req) (params_appName req)))
                 (\<lambda>filesDirectory.
                    let filePath = path_join [filesDirectory, p]
                    in bind_io (checkAccess env req)
                         (\<lambda>allowed.
                            if \<not> allowed then return_io Denied
                            else bind_io (fs_readFile filePath) (\<lambda>c. return_io (Content c)))))
              (\<lambda>err. Status 500 (''Error reading file '' @ p))
              w)"

definition save_try_block :: "env \<Rightarrow> request \<Rightarrow> string \<Rightarrow> world \<Rightarrow> (error + response) \<times> world" where
  \<comment> \<open>the \<open>try\<close> block of the save route; \<open>p\<close> is \<open>req.body.path\<close>\<close>
  "save_try_block env req p =
     bind_io (lift_io (getSecurePath (DATA_DIR env) (request_dir req) (params_appName req)))
       (\<lambda>filesDirectory.
          let filePath = path_join [filesDirectory, p]
          in bind_io (fs_mkdirs (path_dirname filePath))
            (\<lambda>u. bind_io (catch_io (bind_io (fs_readFile filePath) (\<lambda>c. return_io (Some c)))
                                    (\<lambda>err. return_io None))
            (\<lambda>previousContent.
               bind_io (lift_io (case file_buffer req of
                                   None \<Rightarrow> Inl (Error (''Cannot read properties of undefined (reading '' @ sq @ ''buffer'' @ sq @ '')''))
                                 | Some b \<Rightarrow> Inr b))
            (\<lambda>buffer. bind_io (fs_writeFile filePath buffer)
            (\<lambda>u. bind_io (fs_stat filePath)
            (\<lambda>statFile.
               bind_io (commitAllChanges (gitRules env) filesDirectory
                          (case body_commitMessage req of
                             None \<Rightarrow> ''Save file '' @ path_relative filesDirectory filePath
                           | Some m \<Rightarrow>
                               if m \<noteq> [] then m
                               else ''Save file '' @ path_relative filesDirectory filePath))
            (\<lambda>u. bind_io (onFileChange env
                            \<lparr>ev_appName = params_appName req, ev_filePath = filePath,
                             ev_changeType = ''save'', ev_basePath = filesDirectory,
                             ev_relativePath = Some p,
                             ev_previousContent = previousContent,
                             ev_newContent = Some buffer\<rparr>)
            (\<lambda>u. return_io (Saved (size statFile))))))))))"

definition route_files_save :: "env \<Rightarrow> request \<Rightarrow> world \<Rightarrow> response \<times> world" where
  \<comment> \<open>\<open>router.post('/files/:appName/save')\<close>\<close>
  "route_files_save env req w =
     (case body_path req of
        None \<Rightarrow> (Status 400 ''Missing path'', w)
      | Some p \<Rightarrow>
          if p = [] then (Status 400 ''Missing path'', w)
          else if \<not> REGEXP_CHECK_PATH p then (Status 500 (''Forbidden path '' @ p), w)
          else
            (case checkAccess env req w of
               (Inr True, w1) \<Rightarrow>
                 respond_io (save_try_block env req p) (\<lambda>err. Status 500 (''Error writing file '' @ p)) w1
             | (allowed, w1) \<Rightarrow> (Denied, w1)))"

definition route_files_delete :: "env \<Rightarrow> request \<Rightarrow> world \<Rightarrow> response \<times> world" where
  \<comment> \<open>\<open>router.get('/files/:appName/delete')\<close>\<close>
  "route_files_delete env req w =
     (case query_path req of
        None \<Rightarrow> (Status 400 ''Missing path'', w)
      | Some p \<Rightarrow>
          if p = [] then (Status 400 ''Missing path'', w)
          else if \<not> REGEXP_CHECK_PATH p
          then (Status 500 (''Forbidden path '' @ (case body_path req of None \<Rightarrow> ''undefined'' | Some b \<Rightarrow> b)), w)
          else
            respond_io
              (bind_io (lift_io (getSecurePath (DATA_DIR env) (request_dir req) (params_appName req)))
                 (\<lambda>filesDirectory.
                    let filePath = path_join [filesDirectory, p]
                    in bind_io (fs_readFile filePath)
                      (\<lambda>previousContent.
                         bind_io (checkAccess env req)
                      (\<lambda>allowed.
                         if \<not> allowed then return_io Denied
                         else
                           bind_io (fs_unlink filePath)
                      (\<lambda>u. bind_io (commitAllChanges (gitRules env) filesDirectory
                                       (''Delete file '' @ path_relative filesDirectory filePath))
                      (\<lambda>u. bind_io (onFileChange env
                                      \<lparr>ev_appName = params_appName req, ev_filePath = filePath,
                                       ev_changeType = ''delete'', ev_basePath = filesDirectory,
                                       ev_relativePath = body_path req,
                                       ev_previousContent = Some previousContent,
                                       ev_newContent = None\<rparr>)
                      (\<lambda>u. return_io Success)))))))
              (\<lambda>err. Status 500 (''Error reading file '' @ p))
              w)"

section \<open>\<open>ssh.mjs\<close>: the SSH user manager\<close>

text \<open>
  A remote command is kept in structured form, one constructor per command text the
  manager builds; \<open>render\<close> gives the text that \<open>conn.exec\<close> receives, character for
  character (a backslash at the end of a line of a template literal joins the lines).
  The SSH container is a parameter: \<open>remote\<close> maps a command and the container's state
  to what the connection reports and the container's new state.
\<close>

datatype remote_cmd =
    EchoTest
  | Id string
  | CreateUserCommand string string string
  | AddKeyCommand string string string
  | HostInfo

fun render :: "remote_cmd \<Rightarrow> string" where
  "render EchoTest = ''echo '' @ dq @ ''test'' @ dq"
| "render (Id username) = ''id '' @ username"
| "render (CreateUserCommand userHomeInContainer username userPassword) =
     nl @ ''        useradd --home-dir '' @ userHomeInContainer @ '' '' @ username @ '' && ''
     @ ''        echo '' @ dq @ username @ '':'' @ userPassword @ dq @ '' | chpasswd && ''
     @ ''        chown -R '' @ username @ '' '' @ userHomeInContainer @ '' && ''
     @ ''        mkdir -p '' @ userHomeInContainer @ ''/.ssh && ''
     @ ''        chmod 700 '' @ userHomeInContainer @ ''/.ssh && ''
     @ ''        chown '' @ username @ '':'' @ username @ '' '' @ userHomeInContainer @ ''/.ssh''
     @ nl @ ''        ''"
| "render (AddKeyCommand userHomeInContainer quoted username) =
     nl @ ''                touch '' @ userHomeInContainer @ ''/.ssh/authorized_keys && ''
     @ ''                echo '' @ dq @ quoted @ dq @ '' >> '' @ userHomeInContainer @ ''/.ssh/authorized_keys && ''
     @ ''                chown '' @ username @ '':'' @ username @ '' '' @ userHomeInContainer @ ''/.ssh/authorized_keys && ''
     @ ''                chmod 600 '' @ userHomeInContainer @ ''/.ssh/authorized_keys''
     @ nl @ ''            ''"
| "render HostInfo = ''hostname && whoami && uptime''"

datatype channel_outcome =
    ConnectError string
  | ExecError string
  | Closed int string string

datatype js_value =
    Undefined
  | StdoutStderr string string

record 'r ssh_env =
  sshPort :: nat
  adminPrivateKeyFile :: "string option"
  remote :: "remote_cmd \<Rightarrow> 'r \<Rightarrow> channel_outcome \<times> 'r"

record 'r ssh_state =
  adminPrivateKey :: "string option"
  boundary :: 'r
  sent :: "string list"

record user_info =
  username :: string
  password :: "string option"
  port :: nat

record connection_test =
  success :: bool
  output_text :: "string option"
  error_message :: "string option"

fun show_nat :: "nat \<Rightarrow> string" where
  "show_nat n = (if n < 10 then [''0123456789'' ! n] else show_nat (n div 10) @ [''0123456789'' ! (n mod 10)])"

definition show_int :: "int \<Rightarrow> string" where
  "show_int i = (if i < 0 then ''-'' @ show_nat (nat (- i)) else show_nat (nat i))"

definition exec_promise ::
  "'r ssh_env \<Rightarrow> remote_cmd \<Rightarrow> 'r ssh_state \<Rightarrow> (error + js_value) \<times> 'r ssh_state" where
  \<comment> \<open>the \<open>Promise\<close> that \<open>execSSH\<close> builds: what it settles to once the stream has closed or
      the connection has failed\<close>
  "exec_promise env command s =
     (case remote env command (boundary s) of
        (ConnectError m, b) \<Rightarrow>
          (Inl (Error (''SSH connection failed: '' @ m)),
           s\<lparr>boundary := b, sent := sent s @ [render command]\<rparr>)
      | (ExecError m, b) \<Rightarrow>
          (Inl (Error m), s\<lparr>boundary := b, sent := sent s @ [render command]\<rparr>)
      | (Closed code out err, b) \<Rightarrow>
          (if code = 0 then Inr (StdoutStderr (js_trim out) (js_trim err))
           else Inl (Error (''Command failed with code '' @ show_int code @ '': ''
                            @ (if err \<noteq> [] then err else out))),
           s\<lparr>boundary := b, sent := sent s @ [render command]\<rparr>))"

definition execSSH ::
  "'r ssh_env \<Rightarrow> remote_cmd \<Rightarrow> 'r ssh_state \<Rightarrow> (error + js_value) \<times> 'r ssh_state" where
  \<comment> \<open>the body ends with \<open>await promise;\<close> and has no \<open>return\<close>\<close>
  "execSSH env command s =
     (case adminPrivateKey s of
        Some k \<Rightarrow> bind_io (exec_promise env command) (\<lambda>settled. return_io Undefined) s
      | None \<Rightarrow>
          (case adminPrivateKeyFile env of
             None \<Rightarrow> (Inl (Error ''ENOENT: no such file or directory, open''), s)
           | Some k \<Rightarrow>
               bind_io (exec_promise env command) (\<lambda>settled. return_io Undefined)
                 (s\<lparr>adminPrivateKey := Some k\<rparr>)))"

definition isContainerAccessible :: "'r ssh_env \<Rightarrow> 'r ssh_state \<Rightarrow> (error + bool) \<times> 'r ssh_state" where
  "isContainerAccessible env =
     catch_io (bind_io (execSSH env EchoTest) (\<lambda>v. return_io True)) (\<lambda>error. return_io False)"

definition userExists :: "'r ssh_env \<Rightarrow> string \<Rightarrow> 'r ssh_state \<Rightarrow> (error + bool) \<times> 'r ssh_state" where
  "userExists env userId =
     catch_io (bind_io (execSSH env (Id userId)) (\<lambda>v. return_io True)) (\<lambda>error. return_io False)"

definition generatePassword :: "nat list \<Rightarrow> string" where
  \<comment> \<open>the argument is what \<open>crypto.randomBytes(16)\<close> returned\<close>
  "generatePassword randomBytes =
     (let chars = ''ABCDEFGHJKLMNPQRSTUVWXYZabcdefghijkmnpqrstuvwxyz23456789''
      in map (\<lambda>b. chars ! (b mod length chars)) randomBytes)"

definition createUser ::
  "'r ssh_env \<Rightarrow> string \<Rightarrow> string option \<Rightarrow> nat list \<Rightarrow> 'r ssh_state \<Rightarrow> (error + user_info) \<times> 'r ssh_state" where
  "createUser env userId pw randomBytes =
     bind_io (isContainerAccessible env)
       (\<lambda>isAccessible.
          if \<not> isAccessible then throw_io (Error ''SSH container is not accessible'')
          else
            bind_io (userExists env userId)
              (\<lambda>ex.
                 if ex then return_io \<lparr>username = userId, password = None, port = sshPort env\<rparr>
                 else
                   let userPassword =
                         (case pw of
                            None \<Rightarrow> generatePassword randomBytes
                          | Some given \<Rightarrow> if given \<noteq> [] then given else generatePassword randomBytes);
                       userHomeInContainer = ''/users/apps/'' @ userId
                   in bind_io
                        (catch_io (execSSH env (CreateUserCommand userHomeInContainer userId userPassword))
                           (\<lambda>error. throw_io (Error (''Failed to create user: '' @ message error))))
                        (\<lambda>v. return_io \<lparr>username = userId, password = Some userPassword,
                                         port = sshPort env\<rparr>)))"

definition escape_dq :: "string \<Rightarrow> string" where
  \<comment> \<open>\<open>keyContent.replace(/"/g, '\\"')\<close>\<close>
  "escape_dq s = concat (map (\<lambda>c. if c = CHR 0x22 then [CHR 0x5C, CHR 0x22] else [c]) s)"

definition addSSHKey ::
  "'r ssh_env \<Rightarrow> string \<Rightarrow> string \<Rightarrow> 'r ssh_state \<Rightarrow> (error + unit) \<times> 'r ssh_state" where
  "addSSHKey env userId publicKey =
     bind_io (userExists env userId)
       (\<lambda>ex.
          if \<not> ex then throw_io (Error (''User '' @ sq @ userId @ sq @ '' does not exist''))
          else
            let keyContent = js_trim publicKey @ nl;
                userHomeInContainer = ''/users/apps/'' @ userId
            in bind_io
                 (catch_io (execSSH env (AddKeyCommand userHomeInContainer (escape_dq keyContent) userId))
                    (\<lambda>error. throw_io (Error (''Failed to set key permissions: '' @ message error))))
                 (\<lambda>v. return_io ()))"

definition testConnection :: "'r ssh_env \<Rightarrow> 'r ssh_state \<Rightarrow> connection_test \<times> 'r ssh_state" where
  \<comment> \<open>\<open>const { stdout } = await this.execSSH(...)\<close> throws a \<open>TypeError\<close> inside the \<open>try\<close>
      when the awaited value is \<open>undefined\<close>\<close>
  "testConnection env s =
     (case bind_io (execSSH env HostInfo)
             (\<lambda>v. case v of
                     Undefined \<Rightarrow>
                       throw_io (Error (''Cannot destructure property '' @ sq @ ''stdout'' @ sq
                                        @ '' of '' @ sq @ ''(intermediate value)'' @ sq
                                        @ '' as it is undefined.''))
                   | StdoutStderr stdout stderr \<Rightarrow> return_io stdout)
             s of
        (Inr stdout, s') \<Rightarrow> (\<lparr>success = True, output_text = Some stdout, error_message = None\<rparr>, s')
      | (Inl error, s') \<Rightarrow>
          (\<lparr>success = False, output_text = None, error_message = Some (message error)\<rparr>, s'))"

subsection \<open>A container to run the commands in\<close>

text \<open>
  The SSH container as far as the commands above touch it: its accounts (name to
  password) and the files written there (path to content, owner and mode as given to
  \<open>chmod\<close>). The shell reads the text between double quotes as POSIX sh does: a
  backslash keeps the next character if that is one of \<open>$\<close>, backquote, double quote
  or backslash, and joins lines before a newline; expansions are not represented (the
  word is then not read at all). \<open>echo\<close> writes its argument and a newline; the
  commands of a \<open>&&\<close> chain run until one fails.
\<close>

record remote_file =
  content :: string
  owner :: string
  mode :: nat

record container =
  reachable :: bool
  accounts :: "(string \<times> string) list"
  remote_files :: "(string \<times> remote_file) list"

fun sh_dquote :: "string \<Rightarrow> string option" where
  "sh_dquote [] = Some []"
| "sh_dquote [c] = (if c \<in> set [CHR 0x5C, CHR 0x22, CHR 0x24, CHR 0x60] then None else Some [c])"
| "sh_dquote (c # d # ds) =
     (if c = CHR 0x5C then
        (if d \<in> set [CHR 0x5C, CHR 0x22, CHR 0x24, CHR 0x60] then map_option ((#) d) (sh_dquote ds)
         else if d = CHR 0x0A then sh_dquote ds
         else map_option (\<lambda>r. c # d # r) (sh_dquote ds))
      else if c \<in> set [CHR 0x22, CHR 0x24, CHR 0x60] then None
      else map_option ((#) c) (sh_dquote (d # ds)))"

fun container_exec :: "remote_cmd \<Rightarrow> container \<Rightarrow> channel_outcome \<times> container" where
  "container_exec EchoTest ct =
     (if \<not> reachable ct then (ConnectError ''connect ECONNREFUSED'', ct)
      else (Closed 0 (''test'' @ nl) [], ct))"
| "container_exec (Id u) ct =
     (if \<not> reachable ct then (ConnectError ''connect ECONNREFUSED'', ct)
      else if map_of (accounts ct) u \<noteq> None then (Closed 0 (''uid=1001('' @ u @ '')'' @ nl) [], ct)
      else (Closed 1 [] (''id: '' @ u @ '': no such user'' @ nl), ct))"
| "container_exec (CreateUserCommand home u pw) ct =
     (if \<not> reachable ct then (ConnectError ''connect ECONNREFUSED'', ct)
      else if map_of (accounts ct) u \<noteq> None
      then (Closed 9 [] (''useradd: user '' @ u @ '' already exists'' @ nl), ct)
      else (Closed 0 [] [], ct\<lparr>accounts := accounts ct @ [(u, pw)]\<rparr>))"
| "container_exec (AddKeyCommand home quoted u) ct =
     (if \<not> reachable ct then (ConnectError ''connect ECONNREFUSED'', ct)
      else
        (case sh_dquote quoted of
           None \<Rightarrow> (Closed 2 [] (''sh: syntax error'' @ nl), ct)
         | Some word \<Rightarrow>
             let f = home @ ''/.ssh/authorized_keys'';
                 touched = (case map_of (remote_files ct) f of
                              None \<Rightarrow> \<lparr>content = [], owner = ''root'', mode = 644\<rparr>
                            | Some old \<Rightarrow> old);
                 appended = touched\<lparr>content := content touched @ word @ nl\<rparr>
             in if map_of (accounts ct) u = None
                then (Closed 1 [] (''chown: invalid user: '' @ u @ nl),
                      ct\<lparr>remote_files := AList.update f appended (remote_files ct)\<rparr>)
                else (Closed 0 [] [],
                      ct\<lparr>remote_files :=
                            AList.update f (appended\<lparr>owner := u, mode := 600\<rparr>) (remote_files ct)\<rparr>)))"
| "container_exec HostInfo ct =
     (if \<not> reachable ct then (ConnectError ''connect ECONNREFUSED'', ct)
      else (Closed 0 (''bamz-ssh'' @ nl @ ''root'' @ nl @ '' 12:00:00 up 1 day'' @ nl) [], ct))"

section \<open>Scenarios\<close>

text \<open>
  The concrete environments, worlds and requests at which the properties below are
  evaluated. Two applications, \<open>acme\<close> and \<open>other\<close>, share the data directory \<open>/data\<close>;
  the caller may access \<open>acme\<close> only. Git has no exclude rule, and none of the names
  used is one it refuses.
\<close>

definition acme_env :: env where
  "acme_env =
     \<lparr>DATA_DIR = ''/data'',
      checkAppAccessMiddleware = (\<lambda>req. params_appName req = ''acme''),
      changesListeners = (\<lambda>appName. []),
      gitRules = \<lparr>excluded = (\<lambda>fs p. False), refused = (\<lambda>p. False)\<rparr>\<rparr>"

definition failing_listener :: "change_event \<Rightarrow> error option" where
  "failing_listener ev = Some (Error ''listener failed'')"

definition listening_env :: env where
  \<comment> \<open>\<open>acme_env\<close> with one registered change listener, which throws\<close>
  "listening_env = acme_env\<lparr>changesListeners := (\<lambda>appName. [failing_listener])\<rparr>"

definition get_request :: "string \<Rightarrow> string \<Rightarrow> request" where
  \<comment> \<open>a GET for application \<open>app\<close> with \<open>?path=p\<close> and no \<open>dir\<close>\<close>
  "get_request app p =
     \<lparr>params_appName = app, query_dir = None, query_path = Some p, body_path = None,
      body_commitMessage = None, file_buffer = None\<rparr>"

definition save_request :: "string \<Rightarrow> string \<Rightarrow> string \<Rightarrow> request" where
  \<comment> \<open>a POST for application \<open>app\<close> that uploads \<open>bytes\<close> as \<open>p\<close>\<close>
  "save_request app p bytes =
     \<lparr>params_appName = app, query_dir = None, query_path = None, body_path = Some p,
      body_commitMessage = None, file_buffer = Some bytes\<rparr>"

definition empty_world :: world where
  "empty_world = \<lparr>files = [], dirs = [], repos = [], trace = []\<rparr>"

definition two_tenants :: world where
  \<comment> \<open>application \<open>other\<close> holds one file; \<open>acme\<close> has an empty working directory\<close>
  "two_tenants =
     \<lparr>files = [(''/data/apps/other/public/secret.txt'', ''s3cret'')],
      dirs = [''/data'', ''/data/apps'', ''/data/apps/other'', ''/data/apps/other/public'',
              ''/data/apps/acme'', ''/data/apps/acme/public''],
      repos = [],
      trace = []\<rparr>"

definition one_commit :: world where
  \<comment> \<open>\<open>acme\<close> after its first save: one commit, and an empty directory where a branch
      named \<open>feature-one\<close> would go\<close>
  "one_commit =
     \<lparr>files = [(''/data/apps/acme/public/index.html'', ''hello'')],
      dirs = [''/data'', ''/data/apps'', ''/data/apps/acme'', ''/data/apps/acme/public'',
              ''/data/apps/acme/branches'', ''/data/apps/acme/branches/feature-one''],
      repos = [(''/data/apps/acme/public'',
                \<lparr>r_index = [(''index.html'', ''hello'')],
                 r_commits = [\<lparr>c_hash = 0, c_message = ''Save file index.html'',
                               c_tree = [(''index.html'', ''hello'')]\<rparr>]\<rparr>)],
      trace = []\<rparr>"

definition container_env :: "container ssh_env" where
  "container_env = \<lparr>sshPort = 22, adminPrivateKeyFile = Some ''admin-key'', remote = container_exec\<rparr>"

definition container_with :: "(string \<times> string) list \<Rightarrow> container ssh_state" where
  \<comment> \<open>a manager that has not connected yet, and a reachable container with these accounts\<close>
  "container_with accts =
     \<lparr>adminPrivateKey = None,
      boundary = \<lparr>reachable = True, accounts = accts, remote_files = []\<rparr>,
      sent = []\<rparr>"


section \<open>Lemmas about effects, the repository and the save route\<close>

lemmas io_defs = bind_io_def catch_io_def return_io_def throw_io_def lift_io_def respond_io_def

lemma emit_simps [simp]:
  "files (emit e w) = files w" "dirs (emit e w) = dirs w" "repos (emit e w) = repos w"
  "trace (emit e w) = trace w @ [e]"
  by (simp_all add: emit_def)

lemma bind_okE:
  assumes "bind_io m f s = (Inr b, s')"
  obtains a s1 where "m s = (Inr a, s1)" "f a s1 = (Inr b, s')"
  using assms by (auto simp: bind_io_def split: prod.splits sum.splits)

subsection \<open>The work tree a directory lies in\<close>

lemma not_descendant_self [simp]: "\<not> is_descendant d d"
  by (simp add: is_descendant_def)






lemma commits_of_eq: "repo_of d w = Some (r, rp) \<Longrightarrow> commits_of d w = r_commits rp"
  by (simp add: commits_of_def)

lemma index_of_eq: "repo_of d w = Some (r, rp) \<Longrightarrow> index_of d w = r_index rp"
  by (simp add: index_of_def)






subsection \<open>What git sees of the working tree\<close>




lemma changed_same [simp]: "changed t t = []"
  by (simp add: changed_def)


subsection \<open>\<open>initGitIfNotExists\<close>\<close>

lemma init_head:
  "catch_io (bind_io (fs_stat d) (\<lambda>st. return_io ())) (\<lambda>error. fs_mkdirs d) w = (r, w')
   \<Longrightarrow> files w' = files w \<and> repos w' = repos w"
  by (auto simp: io_defs fs_stat_def fs_mkdirs_def split: option.splits if_splits)

lemma init_tail_files:
  "bind_io (git_checkIsRepo d) (\<lambda>isRepo. if \<not> isRepo then git_init d else return_io ()) w = (r, w')
   \<Longrightarrow> files w' = files w \<and> dirs w' = dirs w"
  by (auto simp: io_defs git_checkIsRepo_def git_init_def split: option.splits if_splits)


lemma initGit_unfold:
  assumes "catch_io (bind_io (fs_stat d) (\<lambda>st. return_io ())) (\<lambda>error. fs_mkdirs d) w = (r, w1)"
  shows "initGitIfNotExists d w =
        (case r of Inl e \<Rightarrow> (Inl e, w1)
         | Inr u \<Rightarrow>
             if strip_slash d \<in> set (dirs w1)
             then bind_io (git_checkIsRepo d) (\<lambda>isRepo. if \<not> isRepo then git_init d else return_io ()) w1
             else (Inl (Error ''Cannot use simple-git on a directory that does not exist''), w1))"
  unfolding initGitIfNotExists_def
  by (subst bind_io_def) (simp add: assms simpleGit_def bind_io_def split: sum.splits)

lemma initGit_files: "files (snd (initGitIfNotExists d w)) = files w"
proof -
  obtain r w1 where h: "catch_io (bind_io (fs_stat d) (\<lambda>st. return_io ())) (\<lambda>error. fs_mkdirs d) w = (r, w1)"
    by (cases "catch_io (bind_io (fs_stat d) (\<lambda>st. return_io ())) (\<lambda>error. fs_mkdirs d) w") auto
  note k = init_head[OF h]
  note u = initGit_unfold[OF h]
  show ?thesis
  proof (cases r)
    case (Inl e)
    then show ?thesis using u k by simp
  next
    case (Inr v)
    obtain x w2 where t: "bind_io (git_checkIsRepo d)
        (\<lambda>isRepo. if \<not> isRepo then git_init d else return_io ()) w1 = (x, w2)"
      by (cases "bind_io (git_checkIsRepo d)
        (\<lambda>isRepo. if \<not> isRepo then git_init d else return_io ()) w1") auto
    then show ?thesis using u k Inr init_tail_files[OF t] by simp
  qed
qed




subsection \<open>\<open>commitAllChanges\<close>\<close>

lemma git_add_files: "git_add rules d w = (r, w') \<Longrightarrow> files w' = files w"
  by (auto simp: git_add_def Let_def split: option.splits if_splits)

lemma git_status_files: "git_status rules d w = (r, w') \<Longrightarrow> files w' = files w"
  by (auto simp: git_status_def split: option.splits)

lemma git_commit_files: "git_commit d msg w = (r, w') \<Longrightarrow> files w' = files w"
  by (auto simp: git_commit_def split: option.splits if_splits)





lemma commitAll_files: "files (snd (commitAllChanges rules d msg w)) = files w"
proof -
  obtain x w1 where i: "initGitIfNotExists d w = (x, w1)" by (cases "initGitIfNotExists d w") auto
  have f1: "files w1 = files w" using initGit_files[of d w] i by simp
  obtain y w2 where a: "git_add rules d w1 = (y, w2)" by (cases "git_add rules d w1") auto
  have f2: "files w2 = files w1" using a by (rule git_add_files)
  obtain z w3 where t: "git_status rules d w2 = (z, w3)" by (cases "git_status rules d w2") auto
  have f3: "files w3 = files w2" using t by (rule git_status_files)
  obtain v w4 where c: "git_commit d msg w3 = (v, w4)" by (cases "git_commit d msg w3") auto
  have f4: "files w4 = files w3" using c by (rule git_commit_files)
  show ?thesis
    using i a t c f1 f2 f3 f4
    by (auto simp: commitAllChanges_def io_defs simpleGit_def split: sum.splits)
qed





subsection \<open>The save route\<close>

lemma fs_mkdirs_keeps: "fs_mkdirs p w = (r, w') \<Longrightarrow> files w' = files w \<and> repos w' = repos w"
  by (auto simp: fs_mkdirs_def split: if_splits)

lemma fs_stat_keeps: "fs_stat p w = (r, w') \<Longrightarrow> files w' = files w \<and> repos w' = repos w"
  by (auto simp: fs_stat_def split: option.splits if_splits)

lemma fs_writeFile_ok:
  "fs_writeFile p c w = (Inr u, w') \<Longrightarrow> files w' = AList.update p c (files w) \<and> repos w' = repos w"
  by (auto simp: fs_writeFile_def split: if_splits)

lemma read_prev:
  "catch_io (bind_io (fs_readFile fp) (\<lambda>c. return_io (Some c))) (\<lambda>err. return_io None) w = (r, w')
   \<Longrightarrow> r = Inr (map_of (files w) fp) \<and> files w' = files w \<and> repos w' = repos w"
  by (auto simp: io_defs fs_readFile_def split: option.splits)

lemma route_save_ok:
  assumes "route_files_save env req w = (Saved n, w')"
  obtains p where "body_path req = Some p" "p \<noteq> []" "REGEXP_CHECK_PATH p"
    "checkAppAccessMiddleware env req"
    "save_try_block env req p (emit (AccessCheck (params_appName req)) w) = (Inr (Saved n), w')"
proof -
  from assms obtain p where p: "body_path req = Some p"
    by (auto simp: route_files_save_def split: option.splits)
  from assms p have q: "p \<noteq> []" "REGEXP_CHECK_PATH p"
    by (auto simp: route_files_save_def split: if_splits)
  from assms p q have a: "checkAppAccessMiddleware env req"
    by (auto simp: route_files_save_def checkAccess_def split: if_splits bool.splits)
  from assms p q a
  have "save_try_block env req p (emit (AccessCheck (params_appName req)) w) = (Inr (Saved n), w')"
    by (auto simp: route_files_save_def checkAccess_def respond_io_def split: prod.splits sum.splits)
  with p q a show thesis using that by blast
qed

lemma save_block_ok:
  assumes "save_try_block env req p w = (Inr (Saved n), w')"
  obtains d buffer w0 msg where "file_buffer req = Some buffer"
    "getSecurePath (DATA_DIR env) (request_dir req) (params_appName req) = Inr d"
    "files w0 = AList.update (path_join [d, p]) buffer (files w)" "repos w0 = repos w"
    "commitAllChanges (gitRules env) d msg w0 = (Inr (), w')"
    "call_listeners (changesListeners env (params_appName req))
       \<lparr>ev_appName = params_appName req, ev_filePath = path_join [d, p],
        ev_changeType = ''save'', ev_basePath = d, ev_relativePath = Some p,
        ev_previousContent = map_of (files w) (path_join [d, p]),
        ev_newContent = Some buffer\<rparr> = None"
  using assms
  apply (simp add: save_try_block_def Let_def)
  apply (elim bind_okE)
  apply (auto simp: lift_io_def return_io_def onFileChange_def split: option.splits
              dest!: fs_mkdirs_keeps read_prev fs_writeFile_ok fs_stat_keeps)
  done

lemma save_block_thrown:
  assumes blk: "save_try_block (env\<lparr>changesListeners := \<lambda>a. []\<rparr>) req p w = (Inr (Saved n), w')"
      and d: "getSecurePath (DATA_DIR env) (request_dir req) (params_appName req) = Inr d"
      and thrown: "call_listeners (changesListeners env (params_appName req))
                \<lparr>ev_appName = params_appName req, ev_filePath = path_join [d, p],
                 ev_changeType = ''save'', ev_basePath = d, ev_relativePath = Some p,
                 ev_previousContent = map_of (files w) (path_join [d, p]),
                 ev_newContent = file_buffer req\<rparr> = Some e"
  shows "save_try_block env req p w = (Inl e, w')"
  using blk
  apply (simp add: save_try_block_def Let_def d)
  apply (elim bind_okE)
  apply (frule fs_mkdirs_keeps)
  apply (frule read_prev)
  apply (frule fs_writeFile_ok)
  apply (frule fs_stat_keeps)
  apply (insert thrown)
  apply (auto simp: bind_io_def lift_io_def return_io_def onFileChange_def split: option.splits)
  done





subsection \<open>The remote channel\<close>

lemma exec_sent:
  "execSSH env command s = (Inr v, s') \<Longrightarrow>
     v = Undefined \<and> sent s' = sent s @ [render command]
     \<and> boundary s' = snd (remote env command (boundary s))"
  by (auto simp: execSSH_def exec_promise_def bind_io_def return_io_def
           split: option.splits prod.splits sum.splits channel_outcome.splits if_splits)

lemma probe_true:
  assumes "catch_io (bind_io (execSSH env command) (\<lambda>v. return_io True)) (\<lambda>error. return_io False) s
           = (Inr True, s')"
  shows "sent s' = sent s @ [render command] \<and> boundary s' = snd (remote env command (boundary s))"
proof -
  obtain r s1 where x: "execSSH env command s = (r, s1)" by (cases "execSSH env command s") auto
  show ?thesis
  proof (cases r)
    case (Inl e)
    then show ?thesis using assms x by (simp add: catch_io_def bind_io_def return_io_def)
  next
    case (Inr v)
    then have "s' = s1" using assms x by (simp add: catch_io_def bind_io_def return_io_def)
    then show ?thesis using exec_sent[of env command s v s1] x Inr by simp
  qed
qed

lemma createUser_result:
  assumes "createUser env userId pw rnd s0 = (Inr r1, s)"
  shows "username r1 = userId \<and> port r1 = sshPort env"
  using assms
  apply (simp add: createUser_def Let_def)
  apply (elim bind_okE)
  apply (auto simp: return_io_def throw_io_def Let_def split: if_splits elim!: bind_okE)
  done

section \<open>The claims\<close>

text \<open>
  Claim C1. For every tenant, branch selector and caller-supplied relative path \<open>P\<close>, the
  resolved absolute path is a descendant of that tenant's root under the data directory,
  and a \<open>P\<close> containing a parent-directory segment is refused.

  The code does not do this. \<open>getSecurePath\<close> looks for \<open>..\<close> in the branch selector only,
  \<open>REGEXP_CHECK_PATH\<close> lets dots and slashes through, and \<open>path.join\<close> resolves the
  \<open>..\<close> segments of \<open>P\<close>: a request for application \<open>acme\<close> with the path
  \<open>../../other/public/secret.txt\<close> passes both checks, resolves outside \<open>/data/apps/acme\<close>
  and is answered with the content of the other application's file.
\<close>

theorem path_escapes_tenant_root:
  "REGEXP_CHECK_PATH ''../../other/public/secret.txt''
   \<and> getSecurePath ''/data'' ''public'' ''acme'' = Inr ''/data/apps/acme/public''
   \<and> path_join [''/data/apps/acme/public'', ''../../other/public/secret.txt'']
       = ''/data/apps/other/public/secret.txt''
   \<and> has_dotdot ''../../other/public/secret.txt''
   \<and> is_descendant ''/data/apps/acme'' ''/data/apps/other/public/secret.txt'' = False
   \<and> fst (route_files_content acme_env (get_request ''acme'' ''../../other/public/secret.txt'') two_tenants)
       = Content ''s3cret''"
  by code_simp

text \<open>
  Claim C2. When the target directory of \<open>createBranchWithWorktree\<close> already exists, the
  operation fails and does not go on to create a worktree.

  The code does not do this. The error thrown after a successful \<open>fs.stat\<close> is thrown
  inside the \<open>try\<close> whose \<open>catch\<close> means "does not exist", so it is swallowed: with the
  directory \<open>branches/feature-one\<close> present (and empty), the call runs
  \<open>git worktree add\<close> and returns normally.
\<close>

theorem createBranch_existing_directory_proceeds:
  "fst (fs_stat ''/data/apps/acme/branches/feature-one'' one_commit)
     = Inr \<lparr>isDirectory = True, size = 0\<rparr>
   \<and> fst (createBranchWithWorktree ''/data/apps/acme/public'' ''feature-one''
            ''/data/apps/acme/branches'' None one_commit) = Inr ()
   \<and> trace (snd (createBranchWithWorktree ''/data/apps/acme/public'' ''feature-one''
                   ''/data/apps/acme/branches'' None one_commit))
      = [Stat ''/data/apps/acme/public'', CheckIsRepo ''/data/apps/acme/public'',
         Stat ''/data/apps/acme/branches/feature-one'',
         GitRaw ''/data/apps/acme/public''
           [''worktree'', ''add'', ''-b'', ''feature-one'', ''../branches/feature-one'']]"
  by code_simp

text \<open>
  Claim C3, as amended. When a save succeeds in the absence of listeners (the write and
  the commit succeed) and a registered change listener throws on the notification of
  that save, the caller is answered with status 500 and the text "Error writing file"
  followed by the path; the world is the one the successful save leaves behind, so the
  written file and the commit stay.

  As stated (the caller still observes success) the claim fails: \<open>onFileChange\<close> calls
  the listeners without a \<open>try\<close>, inside the route's own \<open>try\<close>.
\<close>

theorem save_listener_failure_reported:
  assumes quiet: "route_files_save (env\<lparr>changesListeners := \<lambda>a. []\<rparr>) req w = (Saved n, w')"
      and p: "body_path req = Some p"
      and d: "getSecurePath (DATA_DIR env) (request_dir req) (params_appName req) = Inr d"
      and thrown: "call_listeners (changesListeners env (params_appName req))
                \<lparr>ev_appName = params_appName req, ev_filePath = path_join [d, p],
                 ev_changeType = ''save'', ev_basePath = d, ev_relativePath = Some p,
                 ev_previousContent = map_of (files w) (path_join [d, p]),
                 ev_newContent = file_buffer req\<rparr> = Some e"
  shows "route_files_save env req w = (Status 500 (''Error writing file '' @ p), w')
         \<and> (\<exists>buffer. file_buffer req = Some buffer
                      \<and> map_of (files w') (path_join [d, p]) = Some buffer)"
proof -
  let ?w1 = "emit (AccessCheck (params_appName req)) w"
  from route_save_ok[OF quiet] p
  have q: "p \<noteq> []" "REGEXP_CHECK_PATH p" "checkAppAccessMiddleware env req"
    and blk: "save_try_block (env\<lparr>changesListeners := \<lambda>a. []\<rparr>) req p ?w1 = (Inr (Saved n), w')"
    by auto
  have thrown': "call_listeners (changesListeners env (params_appName req))
                \<lparr>ev_appName = params_appName req, ev_filePath = path_join [d, p],
                 ev_changeType = ''save'', ev_basePath = d, ev_relativePath = Some p,
                 ev_previousContent = map_of (files ?w1) (path_join [d, p]),
                 ev_newContent = file_buffer req\<rparr> = Some e"
    using thrown by simp
  have t: "save_try_block env req p ?w1 = (Inl e, w')"
    by (rule save_block_thrown[OF blk d thrown'])
  have r: "route_files_save env req w = (Status 500 (''Error writing file '' @ p), w')"
    using p q t by (simp add: route_files_save_def checkAccess_def respond_io_def)
  obtain d' buffer w0 msg where
    b: "file_buffer req = Some buffer"
    and d': "getSecurePath (DATA_DIR (env\<lparr>changesListeners := \<lambda>a. []\<rparr>)) (request_dir req)
               (params_appName req) = Inr d'"
    and f0': "files w0 = AList.update (path_join [d', p]) buffer (files ?w1)"
    and c': "commitAllChanges (gitRules (env\<lparr>changesListeners := \<lambda>a. []\<rparr>)) d' msg w0 = (Inr (), w')"
    by (rule save_block_ok[OF blk])
  have dd: "d' = d" using d d' by simp
  have "files w' = files w0" using commitAll_files[of "gitRules env" d' msg w0] c' by simp
  then have "map_of (files w') (path_join [d, p]) = Some buffer"
    using f0' dd by (simp add: update_conv')
  with r b show ?thesis by simp
qed

theorem save_listener_failure_reported_witness:
  "route_files_save listening_env (save_request ''acme'' ''a.txt'' ''hello'') two_tenants
     = (Status 500 ''Error writing file a.txt'',
        snd (route_files_save acme_env (save_request ''acme'' ''a.txt'' ''hello'') two_tenants))
   \<and> map_of (files (snd (route_files_save acme_env (save_request ''acme'' ''a.txt'' ''hello'') two_tenants)))
        ''/data/apps/acme/public/a.txt'' = Some ''hello''"
proof -
  let ?req = "save_request ''acme'' ''a.txt'' ''hello''"
  let ?w' = "snd (route_files_save acme_env ?req two_tenants)"
  have e0: "listening_env\<lparr>changesListeners := \<lambda>a. []\<rparr> = acme_env"
    by (simp add: listening_env_def acme_env_def)
  have f: "fst (route_files_save acme_env ?req two_tenants) = Saved 5" by code_simp
  have quiet: "route_files_save (listening_env\<lparr>changesListeners := \<lambda>a. []\<rparr>) ?req two_tenants
               = (Saved 5, ?w')"
    unfolding e0 using f by (simp add: prod_eq_iff)
  have p: "body_path ?req = Some ''a.txt''" by (simp add: save_request_def)
  have d: "getSecurePath (DATA_DIR listening_env) (request_dir ?req) (params_appName ?req)
           = Inr ''/data/apps/acme/public''"
    by code_simp
  have thrown: "call_listeners (changesListeners listening_env (params_appName ?req))
                \<lparr>ev_appName = params_appName ?req,
                 ev_filePath = path_join [''/data/apps/acme/public'', ''a.txt''],
                 ev_changeType = ''save'', ev_basePath = ''/data/apps/acme/public'',
                 ev_relativePath = Some ''a.txt'',
                 ev_previousContent = map_of (files two_tenants) (path_join [''/data/apps/acme/public'', ''a.txt'']),
                 ev_newContent = file_buffer ?req\<rparr> = Some (Error ''listener failed'')"
    by (simp add: listening_env_def acme_env_def failing_listener_def)
  have j: "path_join [''/data/apps/acme/public'', ''a.txt''] = ''/data/apps/acme/public/a.txt''"
    by code_simp
  from save_listener_failure_reported[OF quiet p d thrown] show ?thesis
    by (simp add: j save_request_def)
qed

theorem save_listener_failure_masks_success:
  "fst (route_files_save acme_env (save_request ''acme'' ''a.txt'' ''hello'') two_tenants) = Saved 5
   \<and> fst (route_files_save listening_env (save_request ''acme'' ''a.txt'' ''hello'') two_tenants)
       = Status 500 ''Error writing file a.txt''
   \<and> snd (route_files_save listening_env (save_request ''acme'' ''a.txt'' ''hello'') two_tenants)
       = snd (route_files_save acme_env (save_request ''acme'' ''a.txt'' ''hello'') two_tenants)"
  by code_simp




text \<open>
  Claim C5. \<open>getFileContentDiff\<close> returns empty content for the side on which the file
  does not exist, also when the commit is a root commit, and never an error.

  The code does not do this for a root commit. \<open>git rev-parse <hash>^\<close> is run outside
  the two inner \<open>try\<close> blocks; for a commit without parent it fails, and the outer
  \<open>catch\<close> rethrows. The first commit of a repository, which adds \<open>index.html\<close>, is
  answered with the error instead of an empty "before" side.
\<close>

theorem getFileContentDiff_root_commit_fails:
  "commits_of ''/data/apps/acme/public'' one_commit
     = [\<lparr>c_hash = 0, c_message = ''Save file index.html'', c_tree = [(''index.html'', ''hello'')]\<rparr>]
   \<and> fst (getFileContentDiff ''/data/apps/acme/public'' 0 ''index.html'' one_commit)
     = Inl (Error ''fatal: ambiguous argument: unknown revision or path not in the working tree.'')"
  by code_simp

text \<open>
  Claim C6. \<open>createUser\<close> is idempotent: once a call has returned an account, a further
  call made while the container is reachable and the account exists returns the same
  account name and port and no password; the only commands it sends are the two probes
  (\<open>echo "test"\<close> and \<open>id <name>\<close>), so no account is created again and no password is
  set.
\<close>

theorem createUser_idempotent:
  assumes first: "createUser env userId pw1 rnd1 s0 = (Inr r1, s)"
      and reach: "isContainerAccessible env s = (Inr True, s1)"
      and ex: "userExists env userId s1 = (Inr True, s2)"
  shows "createUser env userId pw2 rnd2 s
           = (Inr \<lparr>username = username r1, password = None, port = port r1\<rparr>, s2)
         \<and> sent s2 = sent s @ [render EchoTest, render (Id userId)]
         \<and> boundary s2 = snd (remote env (Id userId) (snd (remote env EchoTest (boundary s))))"
proof -
  have a: "createUser env userId pw2 rnd2 s
             = (Inr \<lparr>username = userId, password = None, port = sshPort env\<rparr>, s2)"
    using reach ex by (simp add: createUser_def bind_io_def return_io_def)
  have b: "sent s1 = sent s @ [render EchoTest] \<and> boundary s1 = snd (remote env EchoTest (boundary s))"
    using reach unfolding isContainerAccessible_def by (rule probe_true)
  have c: "sent s2 = sent s1 @ [render (Id userId)]
           \<and> boundary s2 = snd (remote env (Id userId) (boundary s1))"
    using ex unfolding userExists_def by (rule probe_true)
  show ?thesis using a b c createUser_result[OF first] by simp
qed

theorem createUser_idempotent_witness:
  "fst (createUser container_env ''acme'' None [0, 1, 2, 3, 4, 5, 6, 7, 8, 9, 10, 11, 12, 13, 14, 15]
          (container_with []))
     = Inr \<lparr>username = ''acme'', password = Some ''ABCDEFGHJKLMNPQR'', port = 22\<rparr>
   \<and> fst (createUser container_env ''acme'' (Some ''other-password'') []
            (snd (createUser container_env ''acme'' None [0, 1, 2, 3, 4, 5, 6, 7, 8, 9, 10, 11, 12, 13, 14, 15]
                    (container_with []))))
     = Inr \<lparr>username = ''acme'', password = None, port = 22\<rparr>
   \<and> accounts (boundary (snd (createUser container_env ''acme'' (Some ''other-password'') []
            (snd (createUser container_env ''acme'' None [0, 1, 2, 3, 4, 5, 6, 7, 8, 9, 10, 11, 12, 13, 14, 15]
                    (container_with []))))))
     = [(''acme'', ''ABCDEFGHJKLMNPQR'')]"
proof -
  let ?rnd = "[0, 1, 2, 3, 4, 5, 6, 7, 8, 9, 10, 11, 12, 13, 14, 15] :: nat list"
  let ?r1 = "\<lparr>username = ''acme'', password = Some ''ABCDEFGHJKLMNPQR'', port = 22\<rparr>"
  let ?s = "snd (createUser container_env ''acme'' None ?rnd (container_with []))"
  let ?s1 = "snd (isContainerAccessible container_env ?s)"
  let ?s2 = "snd (userExists container_env ''acme'' ?s1)"
  have f1: "fst (createUser container_env ''acme'' None ?rnd (container_with [])) = Inr ?r1" by code_simp
  have f2: "fst (isContainerAccessible container_env ?s) = Inr True" by code_simp
  have f3: "fst (userExists container_env ''acme'' ?s1) = Inr True" by code_simp
  have first: "createUser container_env ''acme'' None ?rnd (container_with []) = (Inr ?r1, ?s)"
    using f1 by (simp add: prod_eq_iff)
  have reach: "isContainerAccessible container_env ?s = (Inr True, ?s1)"
    using f2 by (simp add: prod_eq_iff)
  have ex: "userExists container_env ''acme'' ?s1 = (Inr True, ?s2)"
    using f3 by (simp add: prod_eq_iff)
  have acc: "accounts (snd (remote container_env (Id ''acme'')
                (snd (remote container_env EchoTest (boundary ?s))))) = [(''acme'', ''ABCDEFGHJKLMNPQR'')]"
    by code_simp
  from createUser_idempotent[OF first reach ex, of "Some ''other-password''" "[]"] f1 acc
  show ?thesis by simp
qed

text \<open>
  Claim C7. No tenant data is read or changed before the access check has allowed the
  request; a denied request never observes any tenant file content.

  The delete route does not do this. It reads the file (\<open>previousContent\<close>) before it
  calls the access check: for a caller without access to application \<open>other\<close>, the file
  of \<open>other\<close> is read first and the check comes second, and a path that does not exist is
  answered with status 500 without the check being made at all, which tells a denied
  caller which files exist. Nothing is deleted for a denied caller.
\<close>

theorem delete_reads_before_access_check:
  "checkAppAccessMiddleware acme_env (get_request ''other'' ''secret.txt'') = False
   \<and> route_files_delete acme_env (get_request ''other'' ''secret.txt'') two_tenants
     = (Denied,
        two_tenants\<lparr>trace := [ReadFile ''/data/apps/other/public/secret.txt'', AccessCheck ''other'']\<rparr>)
   \<and> route_files_delete acme_env (get_request ''other'' ''absent.txt'') two_tenants
     = (Status 500 ''Error reading file absent.txt'',
        two_tenants\<lparr>trace := [ReadFile ''/data/apps/other/public/absent.txt'']\<rparr>)"
  by code_simp

text \<open>
  Claim C8, as amended. A call of \<open>createBranchWithWorktree\<close> with a name outside
  \<open>[a-zA-Z0-9-]+\<close> first makes sure the main repository exists (creating its directory
  and initialising it where needed) and then fails with "Failed to create branch:
  Invalid branch name"; it does nothing else, so neither the branch directory nor a
  worktree is created. When the main repository cannot be made, that error is reported
  instead.

  As stated (no I/O, no directory created, no repository initialised) the claim fails:
  the name is checked after \<open>initGitIfNotExists\<close>.
\<close>

theorem createBranch_invalid_name:
  assumes "\<not> valid_branch_name newBranchName"
  shows "createBranchWithWorktree repoPath newBranchName branchesPath sourceBranch w =
           (case initGitIfNotExists repoPath w of
              (Inl e, w1) \<Rightarrow> (Inl (Error (''Failed to create branch: '' @ message e)), w1)
            | (Inr u, w1) \<Rightarrow> (Inl (Error ''Failed to create branch: Invalid branch name''), w1))"
  using assms
  by (simp add: createBranchWithWorktree_def bind_io_def catch_io_def throw_io_def
           split: prod.splits sum.splits)

theorem createBranch_invalid_name_witness:
  "valid_branch_name ''bad name'' = False
   \<and> createBranchWithWorktree ''/data/apps/acme/public'' ''bad name'' ''/data/apps/acme/branches''
       None one_commit
     = (Inl (Error ''Failed to create branch: Invalid branch name''),
        one_commit\<lparr>trace := [Stat ''/data/apps/acme/public'', CheckIsRepo ''/data/apps/acme/public'']\<rparr>)"
proof -
  have h: "\<not> valid_branch_name ''bad name''" by code_simp
  have i: "initGitIfNotExists ''/data/apps/acme/public'' one_commit
           = (Inr (), one_commit\<lparr>trace := [Stat ''/data/apps/acme/public'', CheckIsRepo ''/data/apps/acme/public'']\<rparr>)"
    by code_simp
  from createBranch_invalid_name[OF h, of "''/data/apps/acme/public''" "''/data/apps/acme/branches''" None one_commit]
  show ?thesis using h i by simp
qed

theorem createBranch_invalid_name_initialises_repo:
  "createBranchWithWorktree ''/data/apps/acme/public'' ''bad name'' ''/data/apps/acme/branches''
     None empty_world
   = (Inl (Error ''Failed to create branch: Invalid branch name''),
      \<lparr>files = [],
       dirs = [''/data'', ''/data/apps'', ''/data/apps/acme'', ''/data/apps/acme/public''],
       repos = [(''/data/apps/acme/public'', \<lparr>r_index = [], r_commits = []\<rparr>)],
       trace = [Stat ''/data/apps/acme/public'', Mkdir ''/data/apps/acme/public'',
                CheckIsRepo ''/data/apps/acme/public'', GitInit ''/data/apps/acme/public'']\<rparr>)"
  by code_simp

text \<open>
  Claim C9. After \<open>addSSHKey\<close> the authorized-key file ends with the trimmed key followed
  by a single newline, is owned by the account and has mode 600.

  The code appends two newlines. \<open>keyContent\<close> is the trimmed key and a newline, and it
  is written with \<open>echo "..." >> file\<close>, which adds a newline of its own: every key is
  followed by an empty line. Owner and mode are as claimed.
\<close>

theorem addSSHKey_appends_two_newlines:
  "fst (addSSHKey container_env ''acme'' ''ssh-ed25519 AAAA user@host'' (container_with [(''acme'', ''pw'')]))
     = Inr ()
   \<and> remote_files (boundary (snd (addSSHKey container_env ''acme'' ''ssh-ed25519 AAAA user@host''
                                    (container_with [(''acme'', ''pw'')]))))
     = [(''/users/apps/acme/.ssh/authorized_keys'',
         \<lparr>content = ''ssh-ed25519 AAAA user@host'' @ nl @ nl, owner = ''acme'', mode = 600\<rparr>)]"
  by code_simp

text \<open>
  Claim C10. When the remote command exits with status zero, the promise inside
  \<open>execSSH\<close> settles to the captured, trimmed output pair, but \<open>execSSH\<close> itself returns
  \<open>undefined\<close>; \<open>testConnection\<close>, which destructures \<open>stdout\<close> from that value, therefore
  never reports success, whatever the remote side does.
\<close>

theorem execSSH_resolves_undefined:
  assumes "remote env command (boundary s) = (Closed 0 out err, b)"
      and "adminPrivateKey s = Some k \<or> adminPrivateKeyFile env = Some k"
  shows "fst (exec_promise env command s) = Inr (StdoutStderr (js_trim out) (js_trim err))
         \<and> fst (execSSH env command s) = Inr Undefined
         \<and> success (fst (testConnection env t)) = False"
proof -
  have a: "fst (exec_promise env command s) = Inr (StdoutStderr (js_trim out) (js_trim err))"
    using assms(1) by (simp add: exec_promise_def)
  have "fst (exec_promise env command (s\<lparr>adminPrivateKey := Some k\<rparr>))
          = Inr (StdoutStderr (js_trim out) (js_trim err))"
    using assms(1) by (simp add: exec_promise_def)
  then have b: "fst (execSSH env command s) = Inr Undefined"
    using assms(2) a
    by (auto simp: execSSH_def bind_io_def return_io_def split: option.splits prod.splits sum.splits)
  have c: "success (fst (testConnection env t)) = False"
    by (auto simp: testConnection_def execSSH_def bind_io_def return_io_def throw_io_def
             split: option.splits prod.splits sum.splits js_value.splits)
  from a b c show ?thesis by simp
qed

theorem execSSH_resolves_undefined_witness:
  "fst (exec_promise container_env EchoTest (container_with [])) = Inr (StdoutStderr ''test'' [])
   \<and> fst (execSSH container_env EchoTest (container_with [])) = Inr Undefined
   \<and> success (fst (testConnection container_env (container_with []))) = False"
proof -
  have r: "remote container_env EchoTest (boundary (container_with []))
           = (Closed 0 (''test'' @ nl) [], boundary (container_with []))"
    by code_simp
  have k: "adminPrivateKey (container_with []) = Some ''admin-key''
           \<or> adminPrivateKeyFile container_env = Some ''admin-key''"
    by (simp add: container_env_def)
  have t: "js_trim (''test'' @ nl) = ''test''" "js_trim [] = []" by code_simp+
  from execSSH_resolves_undefined[OF r k, of "container_with []", unfolded t] show ?thesis
    by simp
qed

end
